theory Spec2Isabelle
  imports Complex_Main "HOL-Library.Sublist"
begin

text \<open>
  A model of \<open>create_ppt.py\<close>, the script that reads a snapshot of a stock universe (three
  lines of metadata, then a table) and writes a presentation of four slides. The script is
  one sequence of statements; its steps are the definitions below, named after the
  variables and the calls of the source, and \<open>run\<close> is the script as a whole. What the
  script leaves to pandas and python-pptx is written out where the script relies on it.
\<close>

section \<open>Strings\<close>

text \<open>
  A Python \<open>str\<close> is modelled as a HOL \<open>string\<close>; a \<open>char\<close> stands for the code point
  of the same number, so the model covers the code points below 256.
\<close>

definition is_space :: "char \<Rightarrow> bool" where
  \<comment> \<open>\<open>str.isspace\<close> on one character: the code points below 256 that Python counts
      as whitespace (TAB, LF, VT, FF, CR, FS, GS, RS, US, SPACE, NEL, NBSP).\<close>
  "is_space c = ((of_char c :: nat) \<in> {9, 10, 11, 12, 13, 28, 29, 30, 31, 32, 133, 160})"

definition lstrip :: "string \<Rightarrow> string" where
  "lstrip s = dropWhile is_space s"

definition rstrip :: "string \<Rightarrow> string" where
  "rstrip s = rev (dropWhile is_space (rev s))"

definition strip :: "string \<Rightarrow> string" where
  \<comment> \<open>\<open>p.strip()\<close>\<close>
  "strip s = rstrip (lstrip s)"

fun split_comma :: "string \<Rightarrow> string list" where
  \<comment> \<open>\<open>line.split(",")\<close>: the empty string gives one empty part.\<close>
  "split_comma [] = [[]]"
| "split_comma (c # cs) =
     (if c = CHR '','' then [] # split_comma cs
      else (case split_comma cs of
              [] \<Rightarrow> [[c]]
            | p # ps \<Rightarrow> (c # p) # ps))"

fun join_comma :: "string list \<Rightarrow> string" where
  \<comment> \<open>\<open>",".join(parts)\<close>, the inverse the split is measured against.\<close>
  "join_comma [] = []"
| "join_comma [p] = p"
| "join_comma (p # q # ps) = p @ CHR '','' # join_comma (q # ps)"

section \<open>Metadata (lines 19 to 30)\<close>

fun first_nonempty :: "string list \<Rightarrow> string option" where
  \<comment> \<open>the loop \<open>for p in parts: if p: return p\<close>, then \<open>return None\<close>\<close>
  "first_nonempty [] = None"
| "first_nonempty (p # ps) = (if p \<noteq> [] then Some p else first_nonempty ps)"

definition clean_metadata_line :: "string \<Rightarrow> string option" where
  "clean_metadata_line line = first_nonempty (map strip (split_comma line))"

record metadata =
  title :: "string option"
  date :: "string option"
  notes' :: "string option"

definition read_metadata :: "string list \<Rightarrow> metadata" where
  \<comment> \<open>the dict \<open>metadata\<close> built from \<open>lines\<close>\<close>
  "read_metadata lines =
     \<lparr>title = (if length lines > 0 then clean_metadata_line (lines ! 0) else None),
      date = (if length lines > 1 then clean_metadata_line (lines ! 1) else None),
      notes' = (if length lines > 2 then clean_metadata_line (lines ! 2) else None)\<rparr>"

section \<open>The table (lines 33 to 37)\<close>

text \<open>
  The frame \<open>pd.read_csv(file_path, skiprows=3)\<close> returns is an input of the model, or the
  error the call raised. A frame has a number of rows and named columns, in the order of
  the header; every column of a frame of pandas has one cell per row. A cell is written as
  the text \<open>astype(str)\<close> gives for it, and a missing cell (NaN) is \<open>None\<close>.
\<close>

datatype error = ReadError | KeyError "string list" | TypeError

type_synonym cell = "string option"

record frame =
  nrows :: nat
  columns :: "(string \<times> cell list) list"

definition startswith :: "string \<Rightarrow> string \<Rightarrow> bool" where
  \<comment> \<open>\<open>name.startswith(p)\<close>\<close>
  "startswith name p = (take (length p) name = p)"

definition drop_unnamed :: "frame \<Rightarrow> frame" where
  \<comment> \<open>line 34: \<open>df.loc[:, ~df.columns.str.startswith("Unnamed")]\<close>\<close>
  "drop_unnamed df =
     df\<lparr>columns := filter (\<lambda>(name, col). \<not> startswith name ''Unnamed'') (columns df)\<rparr>"

definition getitem :: "'a frame_scheme \<Rightarrow> string \<Rightarrow> error + cell list" where
  \<comment> \<open>\<open>df[name]\<close>: KeyError when the frame has no column of that name\<close>
  "getitem df name =
     (case map_of (columns df) name of
        None \<Rightarrow> Inl (KeyError [name])
      | Some col \<Rightarrow> Inr col)"

definition astype_str :: "cell \<Rightarrow> string" where
  \<comment> \<open>\<open>.astype(str)\<close> on one cell: NaN becomes the text \<open>nan\<close>\<close>
  "astype_str c = (case c of None \<Rightarrow> ''nan'' | Some s \<Rightarrow> s)"

definition str_replace_comma :: "string \<Rightarrow> string" where
  \<comment> \<open>\<open>.str.replace(',', '')\<close> on one cell\<close>
  "str_replace_comma s = filter (\<lambda>c. c \<noteq> CHR '','') s"

subsection \<open>The number parser of \<open>pd.to_numeric\<close>\<close>

text \<open>
  \<open>pd.to_numeric(..., errors='coerce')\<close> reads a text as a decimal number: whitespace,
  a sign, digits with an optional fraction (one digit at least), an optional exponent
  (\<open>e\<close> or \<open>E\<close>, a sign, one digit at least), whitespace, and nothing else; any other
  text gives NaN. A number is modelled by the rational its digits denote: the rounding
  of binary floating point and its infinities are outside the model (the texts
  \<open>inf\<close> and \<open>infinity\<close>, which pandas reads as an infinity, read as NaN here).
\<close>

definition isspace_ascii :: "char \<Rightarrow> bool" where
  "isspace_ascii c = ((of_char c :: nat) \<in> {9, 10, 11, 12, 13, 32})"

definition is_digit :: "char \<Rightarrow> bool" where
  "is_digit c = (48 \<le> (of_char c :: nat) \<and> (of_char c :: nat) \<le> 57)"

definition digits_value :: "string \<Rightarrow> nat" where
  "digits_value ds = foldl (\<lambda>n c. 10 * n + (of_char c - 48)) 0 ds"

definition take_sign :: "string \<Rightarrow> bool \<times> string" where
  \<comment> \<open>an optional sign: whether it is a minus, and the rest\<close>
  "take_sign s =
     (case s of
        [] \<Rightarrow> (False, [])
      | c # cs \<Rightarrow>
          if c = CHR ''-'' then (True, cs)
          else if c = CHR ''+'' then (False, cs)
          else (False, s))"

definition scale10 :: "rat \<Rightarrow> int \<Rightarrow> rat" where
  "scale10 m k = (if 0 \<le> k then m * 10 ^ nat k else m / 10 ^ nat (- k))"

definition read_fraction :: "string \<Rightarrow> string \<times> string" where
  \<comment> \<open>an optional point with the digits after it: these digits, and the rest\<close>
  "read_fraction s =
     (case s of
        [] \<Rightarrow> ([], [])
      | c # cs \<Rightarrow>
          if c = CHR ''.'' then (takeWhile is_digit cs, dropWhile is_digit cs)
          else ([], s))"

definition read_exponent :: "string \<Rightarrow> int \<times> string" where
  \<comment> \<open>an optional exponent: its value, and the rest; an \<open>e\<close> with no digit after it
      is not read\<close>
  "read_exponent s =
     (case s of
        [] \<Rightarrow> (0, [])
      | c # cs \<Rightarrow>
          if c = CHR ''e'' \<or> c = CHR ''E'' then
            (let (eneg, r) = take_sign cs;
                 ed = takeWhile is_digit r
             in if ed = [] then (0, s)
                else (if eneg then - int (digits_value ed) else int (digits_value ed),
                      dropWhile is_digit r))
          else (0, s))"

definition parse_float :: "string \<Rightarrow> rat option" where
  "parse_float s =
     (let s1 = dropWhile isspace_ascii s;
          (neg, s2) = take_sign s1;
          ip = takeWhile is_digit s2;
          (fp, s4) = read_fraction (dropWhile is_digit s2);
          (ex, s5) = read_exponent s4;
          s6 = dropWhile isspace_ascii s5;
          m = of_nat (digits_value (ip @ fp))
      in if ip = [] \<and> fp = [] then None
         else if s6 \<noteq> [] then None
         else Some (scale10 (if neg then - m else m) (ex - int (length fp))))"


definition to_numeric :: "string \<Rightarrow> rat option" where
  \<comment> \<open>\<open>pd.to_numeric(..., errors='coerce')\<close> on one cell: a text that does not parse
      gives NaN, no error\<close>
  "to_numeric s = parse_float s"

definition coerce_cell :: "cell \<Rightarrow> rat option" where
  \<comment> \<open>line 37 on one cell\<close>
  "coerce_cell c = to_numeric (str_replace_comma (astype_str c))"

text \<open>
  After line 37 the column MktCap holds numbers. The dataset keeps it apart from the
  other columns, which stay as they were read.
\<close>

record dataset = frame +
  mktcap :: "rat option list"

definition coerce_mktcap :: "frame \<Rightarrow> error + dataset" where
  \<comment> \<open>line 37: \<open>df['MktCap'] = pd.to_numeric(df['MktCap'].astype(str).str.replace(',', ''),
      errors='coerce')\<close>; reading \<open>df['MktCap']\<close> raises KeyError without the column\<close>
  "coerce_mktcap df =
     (case getitem df ''MktCap'' of
        Inl e \<Rightarrow> Inl e
      | Inr col \<Rightarrow>
          Inr \<lparr>nrows = nrows df,
               columns = filter (\<lambda>(name, c). name \<noteq> ''MktCap'') (columns df),
               mktcap = map coerce_cell col\<rparr>)"

definition load :: "error + frame \<Rightarrow> error + dataset" where
  \<comment> \<open>lines 33 to 37\<close>
  "load parsed =
     (case parsed of
        Inl e \<Rightarrow> Inl e
      | Inr df \<Rightarrow> coerce_mktcap (drop_unnamed df))"

definition wf_dataset :: "dataset \<Rightarrow> bool" where
  \<comment> \<open>what every frame of pandas satisfies: each column has one cell per row\<close>
  "wf_dataset df \<longleftrightarrow>
     length (mktcap df) = nrows df \<and> (\<forall>c \<in> set (columns df). length (snd c) = nrows df)"

definition wf_frame :: "frame \<Rightarrow> bool" where
  \<comment> \<open>the same of a frame as it is read\<close>
  "wf_frame df \<longleftrightarrow> (\<forall>c \<in> set (columns df). length (snd c) = nrows df)"

section \<open>Aggregation (lines 74 to 78, 109, 130)\<close>

text \<open>
  The reductions of pandas skip NaN: \<open>sum\<close> adds the cells with NaN read as zero,
  \<open>mean\<close> divides that sum by the number of cells that are not NaN and is NaN when there
  is none, \<open>median\<close> is the middle of the sorted cells that are not NaN (the mean of the
  two middle ones when their number is even) and NaN when there is none.
\<close>

fun dropna :: "'a option list \<Rightarrow> 'a list" where
  "dropna [] = []"
| "dropna (None # xs) = dropna xs"
| "dropna (Some x # xs) = x # dropna xs"

definition series_sum :: "rat option list \<Rightarrow> rat" where
  \<comment> \<open>\<open>df['MktCap'].sum()\<close>\<close>
  "series_sum xs = sum_list (map (\<lambda>c. case c of None \<Rightarrow> 0 | Some v \<Rightarrow> v) xs)"

definition series_count :: "'a option list \<Rightarrow> nat" where
  \<comment> \<open>the number of cells that are not NaN\<close>
  "series_count xs = length (filter (\<lambda>c. c \<noteq> None) xs)"

definition series_mean :: "rat option list \<Rightarrow> rat option" where
  \<comment> \<open>\<open>df['MktCap'].mean()\<close>\<close>
  "series_mean xs =
     (if series_count xs = 0 then None
      else Some (series_sum xs / of_nat (series_count xs)))"

definition series_median :: "rat option list \<Rightarrow> rat option" where
  \<comment> \<open>\<open>df['MktCap'].median()\<close>\<close>
  "series_median xs =
     (let vs = sort (dropna xs); n = length vs
      in if n = 0 then None
         else if odd n then Some (vs ! (n div 2))
         else Some ((vs ! (n div 2 - 1) + vs ! (n div 2)) / 2))"

fun unique :: "'a list \<Rightarrow> 'a list" where
  \<comment> \<open>the distinct values in the order of their first occurrence\<close>
  "unique [] = []"
| "unique (x # xs) = x # filter (\<lambda>y. y \<noteq> x) (unique xs)"

definition nunique :: "'a option list \<Rightarrow> nat" where
  \<comment> \<open>\<open>df['SectorCode'].nunique()\<close>: \<open>dropna=True\<close> is the default\<close>
  "nunique xs = length (unique (dropna xs))"

definition value_counts :: "'a option list \<Rightarrow> ('a \<times> nat) list" where
  \<comment> \<open>\<open>df['SectorCode'].value_counts()\<close>: NaN is dropped, the values are counted in the
      order of their first occurrence, and the table is sorted by descending count, the
      values of one count staying in that order\<close>
  "value_counts xs =
     (let vs = dropna xs
      in sort_key (\<lambda>(k, c). - int c) (map (\<lambda>k. (k, count_list vs k)) (unique vs)))"

definition nlargest :: "nat \<Rightarrow> rat option list \<Rightarrow> nat list" where
  \<comment> \<open>the row positions \<open>df.nlargest(n, 'MktCap')\<close> selects, in its order
      (\<open>keep='first'\<close>): the rows that are not NaN by descending value, rows of one
      value in the order of the frame, then the rows that are NaN, and of all these the
      first \<open>n\<close>\<close>
  "nlargest n xs =
     (let notna = filter (\<lambda>i. xs ! i \<noteq> None) [0..<length xs];
          nan_index = filter (\<lambda>i. xs ! i = None) [0..<length xs]
      in take n (sort_key (\<lambda>i. - the (xs ! i)) notna @ nan_index))"

section \<open>Formatting\<close>

definition digit_char :: "nat \<Rightarrow> char" where
  "digit_char d = ''0123456789'' ! d"

fun str_nat :: "nat \<Rightarrow> string" where
  \<comment> \<open>\<open>str(n)\<close> for a natural number\<close>
  "str_nat n =
     (if n < 10 then [digit_char n]
      else str_nat (n div 10) @ [digit_char (n mod 10)])"

declare str_nat.simps [simp del]

definition zero_pad :: "nat \<Rightarrow> nat \<Rightarrow> string" where
  \<comment> \<open>the digits of \<open>m\<close>, with zeros in front up to the width \<open>w\<close>\<close>
  "zero_pad w m = replicate (w - length (str_nat m)) CHR ''0'' @ str_nat m"

fun format_int_comma :: "nat \<Rightarrow> string" where
  \<comment> \<open>\<open>f"{n:,}"\<close>\<close>
  "format_int_comma n =
     (if n < 1000 then str_nat n
      else format_int_comma (n div 1000) @ '','' @ zero_pad 3 (n mod 1000))"

declare format_int_comma.simps [simp del]

definition round_half_even :: "rat \<Rightarrow> int" where
  "round_half_even x =
     (let f = \<lfloor>x\<rfloor>; d = x - of_int f
      in if d < 1 / 2 then f
         else if 1 / 2 < d then f + 1
         else if even f then f else f + 1)"

definition format_f :: "bool \<Rightarrow> nat \<Rightarrow> rat option \<Rightarrow> string" where
  \<comment> \<open>\<open>f"{x:,.2f}"\<close> (with the comma) and \<open>f"{x:.1f}"\<close> (without); NaN prints as
      \<open>nan\<close>. The digits are those of the rational, rounded half to even.\<close>
  "format_f comma d x =
     (case x of
        None \<Rightarrow> ''nan''
      | Some v \<Rightarrow>
          (let q = nat (round_half_even (\<bar>v\<bar> * 10 ^ d));
               ip = q div 10 ^ d;
               fp = q mod 10 ^ d
           in (if v < 0 then ''-'' else [])
              @ (if comma then format_int_comma ip else str_nat ip)
              @ (if d = 0 then [] else ''.'' @ zero_pad d fp)))"

definition str_cell :: "cell \<Rightarrow> string" where
  \<comment> \<open>\<open>str(row_data[...])\<close>\<close>
  "str_cell c = (case c of None \<Rightarrow> ''nan'' | Some s \<Rightarrow> s)"

definition str_opt :: "string option \<Rightarrow> string" where
  \<comment> \<open>a value of the metadata inside an f-string: \<open>None\<close> prints as \<open>None\<close>\<close>
  "str_opt v = (case v of None \<Rightarrow> ''None'' | Some s \<Rightarrow> s)"

definition nl :: string where
  "nl = [CHR 0x0A]"

section \<open>The presentation (lines 40 to 172)\<close>

text \<open>
  A slide is the list of its shapes, a text box with the text it was given or a table with
  the texts of its cells; sizes, fonts and colours are left out. Giving a text box
  \<open>None\<close> as its text raises in python-pptx (TypeError), since the setter needs a string.
  The run ends with the error raised, and then nothing was saved, or with the presentation
  saved.
\<close>

datatype shape = TextBox string | Table "string list list"

type_synonym slide = "shape list"

definition title_slide :: "metadata \<Rightarrow> error + slide" where
  \<comment> \<open>lines 45 to 63\<close>
  "title_slide md =
     (case title md of
        None \<Rightarrow> Inl TypeError
      | Some t \<Rightarrow> Inr [TextBox t, TextBox (''Analysis Date: '' @ str_opt (date md))])"

record summary =
  total_stocks :: nat
  avg_mktcap :: "rat option"
  median_mktcap :: "rat option"
  total_mktcap :: rat
  num_sectors :: nat

definition statistics :: "dataset \<Rightarrow> error + summary" where
  \<comment> \<open>lines 74 to 78\<close>
  "statistics df =
     (case getitem df ''SectorCode'' of
        Inl e \<Rightarrow> Inl e
      | Inr sectors \<Rightarrow>
          Inr \<lparr>total_stocks = nrows df,
               avg_mktcap = series_mean (mktcap df),
               median_mktcap = series_median (mktcap df),
               total_mktcap = series_sum (mktcap df),
               num_sectors = nunique sectors\<rparr>)"

definition stats_text :: "summary \<Rightarrow> string" where
  \<comment> \<open>lines 81 to 91\<close>
  "stats_text st =
     nl @ ''Total Number of Stocks: '' @ format_int_comma (total_stocks st) @ nl
     @ nl @ ''Total Market Cap: $'' @ format_f True 2 (Some (total_mktcap st)) @ ''M'' @ nl
     @ nl @ ''Average Market Cap: $'' @ format_f True 2 (avg_mktcap st) @ ''M'' @ nl
     @ nl @ ''Median Market Cap: $'' @ format_f True 2 (median_mktcap st) @ ''M'' @ nl
     @ nl @ ''Number of Sectors: '' @ str_nat (num_sectors st) @ nl"

definition summary_slide :: "dataset \<Rightarrow> error + slide" where
  \<comment> \<open>lines 66 to 98\<close>
  "summary_slide df =
     (case statistics df of
        Inl e \<Rightarrow> Inl e
      | Inr st \<Rightarrow> Inr [TextBox ''Universe Summary Statistics'', TextBox (strip (stats_text st))])"

definition sector_breakdown :: "dataset \<Rightarrow> error + (string \<times> nat \<times> rat) list" where
  \<comment> \<open>lines 109 to 112: the sector, its count and \<open>pct\<close> of each turn of the loop. The
      division is by the number of rows, which is not zero when there is a sector.\<close>
  "sector_breakdown df =
     (case getitem df ''SectorCode'' of
        Inl e \<Rightarrow> Inl e
      | Inr sectors \<Rightarrow>
          Inr (map (\<lambda>(sector, count). (sector, count, (of_nat count / of_nat (nrows df)) * 100))
                 (value_counts sectors)))"

definition sector_line :: "string \<times> nat \<times> rat \<Rightarrow> string" where
  \<comment> \<open>line 113\<close>
  "sector_line r =
     (case r of (sector, count, pct) \<Rightarrow>
        sector @ '': '' @ format_int_comma count @ '' ('' @ format_f False 1 (Some pct)
        @ ''%)'' @ nl)"

definition sector_slide :: "dataset \<Rightarrow> error + slide" where
  \<comment> \<open>lines 101 to 119\<close>
  "sector_slide df =
     (case sector_breakdown df of
        Inl e \<Rightarrow> Inl e
      | Inr rows \<Rightarrow>
          Inr [TextBox ''Sector Breakdown'',
               TextBox (foldl (\<lambda>sector_text r. sector_text @ sector_line r)
                          (''Stock Count by Sector:'' @ nl @ nl) rows)])"

definition iloc :: "cell list \<Rightarrow> nat \<Rightarrow> cell" where
  \<comment> \<open>the cell of a column at a row position; a column has a cell for every row, and the
      model reads a position beyond the column as NaN\<close>
  "iloc col i = (if i < length col then col ! i else None)"

record stock =
  Ticker :: cell
  Name :: cell
  MktCap :: "rat option"
  SectorCode :: cell

definition top_stocks :: "dataset \<Rightarrow> error + stock list" where
  \<comment> \<open>line 130: \<open>df.nlargest(15, 'MktCap')[['Ticker', 'Name', 'MktCap', 'SectorCode']]\<close>;
      the selection of columns raises KeyError with the labels that are missing\<close>
  "top_stocks df =
     (let missing = filter (\<lambda>name. map_of (columns df) name = None)
                      [''Ticker'', ''Name'', ''SectorCode'']
      in if missing \<noteq> [] then Inl (KeyError missing)
         else Inr (map (\<lambda>i. \<lparr>Ticker = iloc (the (map_of (columns df) ''Ticker'')) i,
                               Name = iloc (the (map_of (columns df) ''Name'')) i,
                               MktCap = mktcap df ! i,
                               SectorCode = iloc (the (map_of (columns df) ''SectorCode'')) i\<rparr>)
                     (nlargest 15 (mktcap df))))"

definition table_row :: "stock \<Rightarrow> string list" where
  \<comment> \<open>lines 161 to 164\<close>
  "table_row r =
     [str_cell (Ticker r), take 40 (str_cell (Name r)),
      ''$'' @ format_f True 2 (MktCap r), str_cell (SectorCode r)]"

definition table_slide :: "dataset \<Rightarrow> error + slide" where
  \<comment> \<open>lines 122 to 168\<close>
  "table_slide df =
     (case top_stocks df of
        Inl e \<Rightarrow> Inl e
      | Inr top_rows \<Rightarrow>
          Inr [TextBox ''Top 15 Stocks by Market Cap'',
               Table ([''Ticker'', ''Name'', ''Market Cap ($M)'', ''Sector''] # map table_row top_rows)])"

definition run :: "string list \<Rightarrow> error + frame \<Rightarrow> error + slide list" where
  \<comment> \<open>the script, from the lines of the file and the outcome of \<open>pd.read_csv\<close>\<close>
  "run lines parsed =
     (let md = read_metadata lines
      in case load parsed of
           Inl e \<Rightarrow> Inl e
         | Inr df \<Rightarrow>
       (case title_slide md of
           Inl e \<Rightarrow> Inl e
         | Inr slide1 \<Rightarrow>
       (case summary_slide df of
           Inl e \<Rightarrow> Inl e
         | Inr slide2 \<Rightarrow>
       (case sector_slide df of
           Inl e \<Rightarrow> Inl e
         | Inr slide3 \<Rightarrow>
       (case table_slide df of
           Inl e \<Rightarrow> Inl e
         | Inr slide4 \<Rightarrow> Inr [slide1, slide2, slide3, slide4])))))"

section \<open>Orders the statements use\<close>



section \<open>Properties of the metadata parser\<close>

lemma split_comma_not_Nil: "split_comma s \<noteq> []"
  by (induction s) (auto split: list.splits)

lemma join_split_comma: "join_comma (split_comma s) = s"
proof (induction s)
  case Nil
  show ?case by simp
next
  case (Cons c cs)
  obtain p ps where sp: "split_comma cs = p # ps"
    using split_comma_not_Nil [of cs] by (cases "split_comma cs") auto
  show ?case
  proof (cases "c = CHR '',''")
    case True
    with Cons sp show ?thesis by simp
  next
    case False
    with Cons sp show ?thesis by (cases ps) auto
  qed
qed

lemma split_comma_no_comma: "p \<in> set (split_comma s) \<Longrightarrow> CHR '','' \<notin> set p"
proof (induction s arbitrary: p)
  case Nil
  then show ?case by simp
next
  case (Cons c cs)
  obtain q qs where sp: "split_comma cs = q # qs"
    using split_comma_not_Nil [of cs] by (cases "split_comma cs") auto
  show ?case
  proof (cases "c = CHR '',''")
    case True
    with Cons show ?thesis by auto
  next
    case False
    with Cons.prems sp have "p = c # q \<or> p \<in> set qs" by auto
    then show ?thesis
    proof
      assume "p = c # q"
      moreover have "CHR '','' \<notin> set q" using Cons.IH [of q] sp by simp
      ultimately show ?thesis using False by auto
    next
      assume "p \<in> set qs"
      then show ?thesis using Cons.IH [of p] sp by simp
    qed
  qed
qed

lemma strip_decomp:
  "\<exists>a b. s = a @ strip s @ b \<and> (\<forall>c \<in> set a. is_space c) \<and> (\<forall>c \<in> set b. is_space c)"
proof -
  let ?a = "takeWhile is_space s"
  let ?m = "dropWhile is_space s"
  let ?b = "rev (takeWhile is_space (rev ?m))"
  have 1: "s = ?a @ ?m" by simp
  have "?m = rev (takeWhile is_space (rev ?m) @ dropWhile is_space (rev ?m))"
    by (simp only: takeWhile_dropWhile_id rev_rev_ident)
  then have "?m = rev (dropWhile is_space (rev ?m)) @ ?b"
    by (simp only: rev_append)
  then have 2: "?m = strip s @ ?b"
    by (simp only: strip_def rstrip_def lstrip_def)
  have 3: "\<forall>c \<in> set ?a. is_space c" by (meson set_takeWhileD)
  have 4: "\<forall>c \<in> set ?b. is_space c" using set_takeWhileD by fastforce
  from 1 2 have "s = ?a @ strip s @ ?b" by simp
  with 3 4 show ?thesis by blast
qed

lemma strip_ends:
  assumes "strip s \<noteq> []"
  shows "\<not> is_space (hd (strip s)) \<and> \<not> is_space (last (strip s))"
proof -
  let ?m = "dropWhile is_space s"
  let ?r = "dropWhile is_space (rev ?m)"
  have st: "strip s = rev ?r" by (simp add: strip_def rstrip_def lstrip_def)
  with assms have rne: "?r \<noteq> []" by simp
  then have "\<not> is_space (hd ?r)" using hd_dropWhile by blast
  then have l: "\<not> is_space (last (strip s))" using st rne by (simp add: last_rev)
  from rne have mne: "?m \<noteq> []" by (metis dropWhile.simps(1) rev.simps(1))
  then have hm: "\<not> is_space (hd ?m)" using hd_dropWhile by blast
  have "?m = rev (takeWhile is_space (rev ?m) @ ?r)"
    by (simp only: takeWhile_dropWhile_id rev_rev_ident)
  then have "?m = rev ?r @ rev (takeWhile is_space (rev ?m))"
    by (simp only: rev_append)
  then have "hd ?m = hd (rev ?r)" using rne by (metis hd_append2 rev_is_Nil_conv)
  with hm st have "\<not> is_space (hd (strip s))" by simp
  with l show ?thesis by simp
qed

lemma first_nonempty_None: "first_nonempty ps = None \<longleftrightarrow> (\<forall>p \<in> set ps. p = [])"
  by (induction ps) auto

lemma first_nonempty_Some:
  "first_nonempty ps = Some t \<longleftrightarrow>
     (\<exists>i < length ps. ps ! i = t \<and> t \<noteq> [] \<and> (\<forall>j < i. ps ! j = []))"
proof (induction ps)
  case Nil
  show ?case by simp
next
  case (Cons p ps)
  show ?case
  proof (cases "p = []")
    case False
    have "(\<exists>i < length (p # ps). (p # ps) ! i = t \<and> t \<noteq> [] \<and> (\<forall>j < i. (p # ps) ! j = []))
            \<longleftrightarrow> p = t"
    proof
      assume "\<exists>i < length (p # ps). (p # ps) ! i = t \<and> t \<noteq> [] \<and> (\<forall>j < i. (p # ps) ! j = [])"
      then obtain i where i: "(p # ps) ! i = t" "\<forall>j < i. (p # ps) ! j = []" by blast
      have "i = 0"
      proof (rule ccontr)
        assume "i \<noteq> 0"
        then have "(p # ps) ! 0 = []" using i(2) by blast
        with False show False by simp
      qed
      with i show "p = t" by simp
    next
      assume "p = t"
      with False have "(p # ps) ! 0 = t \<and> t \<noteq> [] \<and> (\<forall>j < 0. (p # ps) ! j = [])" by simp
      then show "\<exists>i < length (p # ps). (p # ps) ! i = t \<and> t \<noteq> [] \<and> (\<forall>j < i. (p # ps) ! j = [])"
        by (metis length_greater_0_conv list.distinct(1))
    qed
    with False show ?thesis by simp
  next
    case True
    have "(\<exists>i < length (p # ps). (p # ps) ! i = t \<and> t \<noteq> [] \<and> (\<forall>j < i. (p # ps) ! j = []))
            \<longleftrightarrow> (\<exists>i < length ps. ps ! i = t \<and> t \<noteq> [] \<and> (\<forall>j < i. ps ! j = []))"
      (is "?L \<longleftrightarrow> ?R")
    proof
      assume ?L
      then obtain i where i: "i < length (p # ps)" "(p # ps) ! i = t" "t \<noteq> []"
        "\<forall>j < i. (p # ps) ! j = []" by blast
      have "i \<noteq> 0"
      proof
        assume "i = 0"
        with i(2) True have "t = []" by simp
        with i(3) show False by simp
      qed
      then obtain k where k: "i = Suc k" by (cases i) auto
      with i have "k < length ps" "ps ! k = t" by auto
      moreover have "\<forall>j < k. ps ! j = []"
      proof (intro allI impI)
        fix j assume "j < k"
        then have "Suc j < i" using k by simp
        then have "(p # ps) ! Suc j = []" using i(4) by blast
        then show "ps ! j = []" by simp
      qed
      ultimately show ?R using i(3) by blast
    next
      assume ?R
      then obtain k where k: "k < length ps" "ps ! k = t" "t \<noteq> []" "\<forall>j < k. ps ! j = []"
        by blast
      have "\<forall>j < Suc k. (p # ps) ! j = []"
      proof (intro allI impI)
        fix j assume "j < Suc k"
        then show "(p # ps) ! j = []" using True k(4) by (cases j) auto
      qed
      with k have "Suc k < length (p # ps) \<and> (p # ps) ! Suc k = t \<and> t \<noteq> [] \<and>
        (\<forall>j < Suc k. (p # ps) ! j = [])" by simp
      then show ?L by blast
    qed
    with True Cons show ?thesis by simp
  qed
qed

text \<open>
  Claim C7. Each of the metadata fields title, date and notes is read from the line of its
  position (0, 1, 2) when that line exists and is null otherwise. On a line, the field is
  the first of the comma-separated parts that is non-empty once the whitespace around it
  is trimmed, and null when no part is. The parts are those of the split on commas
  (joined with commas they give the line back, and none holds a comma), and trimming
  removes whitespace at both ends and nothing else. The line \<open>" , , Q3 Report , "\<close>
  gives \<open>"Q3 Report"\<close>.
\<close>

theorem metadata_first_nonempty_token:
  "title (read_metadata lines) =
     (if 0 < length lines then clean_metadata_line (lines ! 0) else None) \<and>
   date (read_metadata lines) =
     (if 1 < length lines then clean_metadata_line (lines ! 1) else None) \<and>
   notes' (read_metadata lines) =
     (if 2 < length lines then clean_metadata_line (lines ! 2) else None) \<and>
   join_comma (split_comma line) = line \<and>
   (\<forall>p \<in> set (split_comma line). CHR '','' \<notin> set p) \<and>
   (\<forall>p. \<exists>a b. p = a @ strip p @ b \<and>
      (\<forall>c \<in> set a. is_space c) \<and> (\<forall>c \<in> set b. is_space c) \<and>
      (strip p \<noteq> [] \<longrightarrow> \<not> is_space (hd (strip p)) \<and> \<not> is_space (last (strip p)))) \<and>
   (clean_metadata_line line = None \<longleftrightarrow>
      (\<forall>p \<in> set (split_comma line). strip p = [])) \<and>
   (clean_metadata_line line = Some t \<longleftrightarrow>
      (\<exists>i < length (split_comma line).
         strip (split_comma line ! i) = t \<and> t \<noteq> [] \<and>
         (\<forall>j < i. strip (split_comma line ! j) = []))) \<and>
   clean_metadata_line '' , , Q3 Report , '' = Some ''Q3 Report''"
proof -
  have fields:
    "title (read_metadata lines) =
       (if 0 < length lines then clean_metadata_line (lines ! 0) else None)"
    "date (read_metadata lines) =
       (if 1 < length lines then clean_metadata_line (lines ! 1) else None)"
    "notes' (read_metadata lines) =
       (if 2 < length lines then clean_metadata_line (lines ! 2) else None)"
    by (simp_all add: read_metadata_def)
  have trim: "\<forall>p. \<exists>a b. p = a @ strip p @ b \<and>
      (\<forall>c \<in> set a. is_space c) \<and> (\<forall>c \<in> set b. is_space c) \<and>
      (strip p \<noteq> [] \<longrightarrow> \<not> is_space (hd (strip p)) \<and> \<not> is_space (last (strip p)))"
  proof
    fix p
    obtain a b where "p = a @ strip p @ b" "\<forall>c \<in> set a. is_space c" "\<forall>c \<in> set b. is_space c"
      using strip_decomp [of p] by blast
    then show "\<exists>a b. p = a @ strip p @ b \<and>
      (\<forall>c \<in> set a. is_space c) \<and> (\<forall>c \<in> set b. is_space c) \<and>
      (strip p \<noteq> [] \<longrightarrow> \<not> is_space (hd (strip p)) \<and> \<not> is_space (last (strip p)))"
      using strip_ends [of p] by blast
  qed
  have none: "clean_metadata_line line = None \<longleftrightarrow>
      (\<forall>p \<in> set (split_comma line). strip p = [])"
    by (simp add: clean_metadata_line_def first_nonempty_None)
  have some: "clean_metadata_line line = Some t \<longleftrightarrow>
      (\<exists>i < length (split_comma line).
         strip (split_comma line ! i) = t \<and> t \<noteq> [] \<and>
         (\<forall>j < i. strip (split_comma line ! j) = []))"
    unfolding clean_metadata_line_def first_nonempty_Some by auto
  have ex: "clean_metadata_line '' , , Q3 Report , '' = Some ''Q3 Report''"
    by (simp add: clean_metadata_line_def strip_def lstrip_def rstrip_def is_space_def)
  from fields join_split_comma [of line] split_comma_no_comma [of _ line] trim none some ex
  show ?thesis by blast
qed

theorem metadata_first_nonempty_token_witness:
  "title (read_metadata ['' , , Q3 Report , '', '',,'']) = Some ''Q3 Report'' \<and>
   date (read_metadata ['' , , Q3 Report , '', '',,'']) = None \<and>
   notes' (read_metadata ['' , , Q3 Report , '', '',,'']) = None \<and>
   (\<exists>i < length (split_comma '' , , Q3 Report , '').
      strip (split_comma '' , , Q3 Report , '' ! i) = ''Q3 Report'' \<and>
      (\<forall>j < i. strip (split_comma '' , , Q3 Report , '' ! j) = [])) \<and>
   join_comma (split_comma '',,'') = '',,''"
proof -
  have c: "clean_metadata_line '',,'' = None"
    by (simp add: clean_metadata_line_def strip_def lstrip_def rstrip_def is_space_def)
  note t1 = metadata_first_nonempty_token
    [of "['' , , Q3 Report , '', '',,'']" "'' , , Q3 Report , ''" "''Q3 Report''"]
  note t2 = metadata_first_nonempty_token
    [of "['' , , Q3 Report , '', '',,'']" "'',,''" "''Q3 Report''"]
  have a: "title (read_metadata ['' , , Q3 Report , '', '',,'']) = Some ''Q3 Report''"
    using t1 by simp
  have b: "date (read_metadata ['' , , Q3 Report , '', '',,'']) = None"
    using t1 c by simp
  have n: "notes' (read_metadata ['' , , Q3 Report , '', '',,'']) = None"
    using t1 by simp
  have d: "\<exists>i < length (split_comma '' , , Q3 Report , '').
      strip (split_comma '' , , Q3 Report , '' ! i) = ''Q3 Report'' \<and>
      (\<forall>j < i. strip (split_comma '' , , Q3 Report , '' ! j) = [])"
    using t1 by blast
  have e: "join_comma (split_comma '',,'') = '',,''"
    using t2 by blast
  from a b n d e show ?thesis by blast
qed

section \<open>Dropping the placeholder columns\<close>

lemma startswith_prefix: "startswith name p \<longleftrightarrow> prefix p name"
  unfolding startswith_def prefix_def by (metis append_take_drop_id append_eq_conv_conj)

lemma drop_unnamed_columns:
  "columns (drop_unnamed df) = filter (\<lambda>c. \<not> prefix ''Unnamed'' (fst c)) (columns df)"
  by (simp add: drop_unnamed_def startswith_prefix split_def)

text \<open>
  Claim C10. Line 34 removes the columns whose name starts with \<open>Unnamed\<close>, by prefix
  and not by equality, and nothing else: the number of rows stays, the columns kept are
  those whose name does not start with \<open>Unnamed\<close>, each with its cells as they were and
  in the order they had. A column named \<open>UnnamedRisk\<close> is removed as well.
\<close>

theorem drop_unnamed_prefix_match:
  "nrows (drop_unnamed df) = nrows df \<and>
   columns (drop_unnamed df) = filter (\<lambda>c. \<not> prefix ''Unnamed'' (fst c)) (columns df) \<and>
   subseq (columns (drop_unnamed df)) (columns df) \<and>
   (\<forall>c \<in> set (columns df).
      c \<in> set (columns (drop_unnamed df)) \<longleftrightarrow> \<not> prefix ''Unnamed'' (fst c)) \<and>
   columns (drop_unnamed
      \<lparr>nrows = 1,
       columns = [(''Ticker'', [Some ''A'']), (''Unnamed: 1'', [None]),
                  (''UnnamedRisk'', [Some ''7'']), (''MktCap'', [Some ''5''])]\<rparr>)
     = [(''Ticker'', [Some ''A'']), (''MktCap'', [Some ''5''])]"
proof -
  have 1: "nrows (drop_unnamed df) = nrows df" by (simp add: drop_unnamed_def)
  have 3: "subseq (columns (drop_unnamed df)) (columns df)"
    by (simp add: drop_unnamed_columns)
  have 4: "\<forall>c \<in> set (columns df).
      c \<in> set (columns (drop_unnamed df)) \<longleftrightarrow> \<not> prefix ''Unnamed'' (fst c)"
    by (simp add: drop_unnamed_columns)
  have 5: "columns (drop_unnamed
      \<lparr>nrows = 1,
       columns = [(''Ticker'', [Some ''A'']), (''Unnamed: 1'', [None]),
                  (''UnnamedRisk'', [Some ''7'']), (''MktCap'', [Some ''5''])]\<rparr>)
     = [(''Ticker'', [Some ''A'']), (''MktCap'', [Some ''5''])]"
    by (simp add: drop_unnamed_def startswith_def)
  from 1 drop_unnamed_columns [of df] 3 4 5 show ?thesis by blast
qed

theorem drop_unnamed_prefix_match_witness:
  "nrows (drop_unnamed \<lparr>nrows = 2,
       columns = [(''Unnamed: 0'', [None, None]), (''Name'', [Some ''N1'', Some ''N2'']),
                  (''Unnamed'', [Some ''x'', None]), (''Sector'', [Some ''S'', None])]\<rparr>) = 2 \<and>
   columns (drop_unnamed \<lparr>nrows = 2,
       columns = [(''Unnamed: 0'', [None, None]), (''Name'', [Some ''N1'', Some ''N2'']),
                  (''Unnamed'', [Some ''x'', None]), (''Sector'', [Some ''S'', None])]\<rparr>)
     = [(''Name'', [Some ''N1'', Some ''N2'']), (''Sector'', [Some ''S'', None])]"
  using drop_unnamed_prefix_match [of "\<lparr>nrows = 2,
       columns = [(''Unnamed: 0'', [None, None]), (''Name'', [Some ''N1'', Some ''N2'']),
                  (''Unnamed'', [Some ''x'', None]), (''Sector'', [Some ''S'', None])]\<rparr>"]
  by simp

section \<open>The coercion of the column MktCap\<close>




















section \<open>Sum, mean and median\<close>


lemma set_dropna: "set (dropna xs) = {v. Some v \<in> set xs}"
  by (induction xs rule: dropna.induct) auto






section \<open>The number of sectors\<close>

lemma set_unique: "set (unique xs) = set xs"
  by (induction xs) auto

lemma distinct_unique: "distinct (unique xs)"
  by (induction xs) (auto simp: set_unique)

lemma nunique_card: "nunique xs = card {v. Some v \<in> set xs}"
proof -
  have "nunique xs = card (set (unique (dropna xs)))"
    unfolding nunique_def using distinct_card [OF distinct_unique] by metis
  then show ?thesis by (simp add: set_unique set_dropna)
qed

lemma notnull_image: "set xs - {None} = Some ` {v. Some v \<in> set xs}"
  by (auto simp: image_iff) (metis not_None_eq)

lemma nunique_card_minus: "nunique xs = card (set xs - {None})"
  by (simp add: nunique_card notnull_image card_image)

text \<open>
  Claim C2, as amended. The number of sectors is the number of distinct values of
  SectorCode that are not null: null cells are left out of the count and do not count as
  a category of their own. With a null cell in the column the number is one less than the
  number of distinct cells, without one it is that number.
\<close>

theorem sector_count_skips_null:
  "nunique xs = card {s. Some s \<in> set xs} \<and>
   nunique xs = card (set xs - {None}) \<and>
   (None \<in> set xs \<longrightarrow> nunique xs + 1 = card (set xs)) \<and>
   (None \<notin> set xs \<longrightarrow> nunique xs = card (set xs)) \<and>
   (\<forall>df sectors. getitem df ''SectorCode'' = Inr sectors \<longrightarrow>
      (\<exists>st. statistics df = Inr st \<and> num_sectors st = card {s. Some s \<in> set sectors}))"
proof -
  have 3: "None \<in> set xs \<longrightarrow> nunique xs + 1 = card (set xs)"
  proof
    assume n: "None \<in> set xs"
    have "card (set xs - {None}) = card (set xs) - 1" using n by simp
    moreover have "0 < card (set xs)" using n card_gt_0_iff by fastforce
    ultimately show "nunique xs + 1 = card (set xs)" by (simp add: nunique_card_minus)
  qed
  have 4: "None \<notin> set xs \<longrightarrow> nunique xs = card (set xs)"
    by (simp add: nunique_card_minus)
  have 5: "\<forall>df sectors. getitem df ''SectorCode'' = Inr sectors \<longrightarrow>
      (\<exists>st. statistics df = Inr st \<and> num_sectors st = card {s. Some s \<in> set sectors})"
    by (simp add: statistics_def nunique_card)
  from nunique_card [of xs] nunique_card_minus [of xs] 3 4 5 show ?thesis by blast
qed

theorem sector_count_skips_null_witness:
  "nunique [Some ''A'', Some ''B'', None, Some ''A'', None] + 1
     = card (set [Some ''A'', Some ''B'', None, Some ''A'', None]) \<and>
   nunique [Some ''A'', Some ''B'', None, Some ''A'', None] = 2"
proof -
  have "None \<in> set [Some ''A'', Some ''B'', None, Some ''A'', None]" by simp
  with sector_count_skips_null [of "[Some ''A'', Some ''B'', None, Some ''A'', None]"]
  have "nunique [Some ''A'', Some ''B'', None, Some ''A'', None] + 1
     = card (set [Some ''A'', Some ''B'', None, Some ''A'', None])" by blast
  moreover have "nunique [Some ''A'', Some ''B'', None, Some ''A'', None] = 2"
    by (simp add: nunique_def)
  ultimately show ?thesis by simp
qed

text \<open>
  Claim C2 as stated fails: with the sector codes \<open>A\<close> and null, two distinct cells, the
  number of sectors is 1.
\<close>

theorem sector_count_null_counterexample:
  "statistics \<lparr>nrows = 2, columns = [(''SectorCode'', [Some ''A'', None])],
                mktcap = [Some 1, Some 2]\<rparr>
     = Inr \<lparr>total_stocks = 2, avg_mktcap = Some (3 / 2), median_mktcap = Some (3 / 2),
            total_mktcap = 3, num_sectors = 1\<rparr> \<and>
   card (set [Some ''A'', None]) = 2"
  by (simp add: statistics_def getitem_def series_mean_def series_sum_def series_count_def
      series_median_def nunique_def)

section \<open>The frames the script computes with\<close>

text \<open>Lines 33 to 37 keep the shape of the frame: every column has one cell per row.\<close>

lemma load_wf:
  assumes "wf_frame df" and "load (Inr df) = Inr ds"
  shows "wf_dataset ds"
proof -
  let ?d = "drop_unnamed df"
  have sub: "set (columns ?d) \<subseteq> set (columns df)" by (auto simp: drop_unnamed_def)
  have n: "nrows ?d = nrows df" by (simp add: drop_unnamed_def)
  from assms(2) obtain col where col: "map_of (columns ?d) ''MktCap'' = Some col"
    and ds: "ds = \<lparr>nrows = nrows ?d,
                   columns = filter (\<lambda>(name, c). name \<noteq> ''MktCap'') (columns ?d),
                   mktcap = map coerce_cell col\<rparr>"
    by (auto simp: load_def coerce_mktcap_def getitem_def split: option.splits)
  from col have "(''MktCap'', col) \<in> set (columns ?d)" by (rule map_of_SomeD)
  with sub have "(''MktCap'', col) \<in> set (columns df)" by blast
  with assms(1) have "length (snd (''MktCap'', col)) = nrows df"
    unfolding wf_frame_def by blast
  then have "length col = nrows df" by simp
  moreover have "\<forall>c \<in> set (columns ds). length (snd c) = nrows df"
  proof
    fix c assume "c \<in> set (columns ds)"
    then have "c \<in> set (columns ?d)" by (simp add: ds)
    with sub have "c \<in> set (columns df)" by blast
    with assms(1) show "length (snd c) = nrows df" unfolding wf_frame_def by blast
  qed
  ultimately show ?thesis by (simp add: wf_dataset_def ds n)
qed

section \<open>The summary of an empty dataset\<close>

lemmas format_eval = format_f_def format_int_comma.simps str_nat.simps zero_pad_def digit_char_def
  round_half_even_def nl_def

lemmas stats_eval = statistics_def getitem_def series_mean_def series_sum_def series_count_def
  series_median_def nunique_def

lemmas strip_eval = strip_def lstrip_def rstrip_def is_space_def


lemma wf_dataset_column:
  assumes "wf_dataset df" "map_of (columns df) name = Some col"
  shows "length col = nrows df"
proof -
  from assms(2) have "(name, col) \<in> set (columns df)" by (rule map_of_SomeD)
  with assms(1) show ?thesis by (auto simp: wf_dataset_def)
qed

text \<open>
  Claim C4, as amended. For a dataset with no record the total is reported as
  \<open>0.00\<close> and the average and the median as \<open>nan\<close>; computing and formatting the
  statistics raises no error.
\<close>

theorem empty_dataset_summary:
  assumes "wf_dataset df" and "nrows df = 0"
    and "map_of (columns df) ''SectorCode'' = Some sectors"
  shows "statistics df =
           Inr \<lparr>total_stocks = 0, avg_mktcap = None, median_mktcap = None,
                total_mktcap = 0, num_sectors = 0\<rparr> \<and>
         summary_slide df =
           Inr [TextBox ''Universe Summary Statistics'',
                TextBox (''Total Number of Stocks: 0'' @ nl @ nl
                  @ ''Total Market Cap: $0.00M'' @ nl @ nl
                  @ ''Average Market Cap: $nanM'' @ nl @ nl
                  @ ''Median Market Cap: $nanM'' @ nl @ nl
                  @ ''Number of Sectors: 0'')]"
proof -
  from assms(1,2) have m: "mktcap df = []" by (simp add: wf_dataset_def)
  from wf_dataset_column [OF assms(1,3)] assms(2) have s: "sectors = []" by simp
  have st: "statistics df =
           Inr \<lparr>total_stocks = 0, avg_mktcap = None, median_mktcap = None,
                total_mktcap = 0, num_sectors = 0\<rparr>"
    using assms(2,3) m s by (simp add: stats_eval)
  then show ?thesis
    by (simp add: summary_slide_def stats_text_def format_eval strip_eval)
qed

theorem empty_dataset_summary_witness:
  "summary_slide \<lparr>nrows = 0, columns = [(''Ticker'', []), (''SectorCode'', [])], mktcap = []\<rparr> =
     Inr [TextBox ''Universe Summary Statistics'',
          TextBox (''Total Number of Stocks: 0'' @ nl @ nl
            @ ''Total Market Cap: $0.00M'' @ nl @ nl
            @ ''Average Market Cap: $nanM'' @ nl @ nl
            @ ''Median Market Cap: $nanM'' @ nl @ nl
            @ ''Number of Sectors: 0'')]"
proof -
  let ?df = "\<lparr>nrows = 0, columns = [(''Ticker'', []), (''SectorCode'', [])], mktcap = []\<rparr>"
  have 1: "wf_dataset ?df" by (simp add: wf_dataset_def)
  have 2: "nrows ?df = 0" by simp
  have 3: "map_of (columns ?df) ''SectorCode'' = Some []" by simp
  from empty_dataset_summary [OF 1 2 3] show ?thesis by blast
qed

text \<open>
  Claim C4 as stated fails: for the dataset with no record the total is 0 and prints as
  \<open>0.00\<close>, the average and the median are NaN and print as \<open>nan\<close>, so the three are
  neither all zero nor all one marker.
\<close>

theorem empty_dataset_counterexample:
  "statistics \<lparr>nrows = 0, columns = [(''SectorCode'', [])], mktcap = []\<rparr> =
     Inr \<lparr>total_stocks = 0, avg_mktcap = None, median_mktcap = None,
          total_mktcap = 0, num_sectors = 0\<rparr> \<and>
   format_f True 2 (Some 0) = ''0.00'' \<and>
   format_f True 2 None = ''nan'' \<and>
   summary_slide \<lparr>nrows = 0, columns = [(''SectorCode'', [])], mktcap = []\<rparr> =
     Inr [TextBox ''Universe Summary Statistics'',
          TextBox (''Total Number of Stocks: 0'' @ nl @ nl
            @ ''Total Market Cap: $0.00M'' @ nl @ nl
            @ ''Average Market Cap: $nanM'' @ nl @ nl
            @ ''Median Market Cap: $nanM'' @ nl @ nl
            @ ''Number of Sectors: 0'')]"
  by (simp add: summary_slide_def stats_text_def stats_eval format_eval strip_eval)

section \<open>Missing columns and empty tables\<close>









section \<open>Missing metadata\<close>

lemma run_title_Some:
  "title (read_metadata lines) = Some t \<Longrightarrow>
   run lines parsed =
     (case load parsed of
        Inl e \<Rightarrow> Inl e
      | Inr df \<Rightarrow>
       (case summary_slide df of
           Inl e \<Rightarrow> Inl e
         | Inr slide2 \<Rightarrow>
       (case sector_slide df of
           Inl e \<Rightarrow> Inl e
         | Inr slide3 \<Rightarrow>
       (case table_slide df of
           Inl e \<Rightarrow> Inl e
         | Inr slide4 \<Rightarrow>
             Inr [[TextBox t, TextBox (''Analysis Date: '' @ str_opt (date (read_metadata lines)))],
                  slide2, slide3, slide4]))))"
  by (simp add: run_def title_slide_def split: sum.splits)

text \<open>
  Claim C3, as amended. A date that is null (its line absent, or without a non-empty
  part) raises no error and is shown as the text \<open>Analysis Date: None\<close>; the notes are
  never used. So the run depends on the lines through the title and the date only, with
  a title it raises the same errors whatever the date and the notes are, and the first
  slide of a run that completes holds the title and the date text.
\<close>

theorem absent_date_and_notes_tolerated:
  "(title (read_metadata lines) = Some t \<and> date (read_metadata lines) = None \<longrightarrow>
      title_slide (read_metadata lines) = Inr [TextBox t, TextBox ''Analysis Date: None'']) \<and>
   (title (read_metadata lines') = title (read_metadata lines) \<and>
    date (read_metadata lines') = date (read_metadata lines) \<longrightarrow>
      run lines' parsed = run lines parsed) \<and>
   (title (read_metadata lines) \<noteq> None \<and> title (read_metadata lines') \<noteq> None \<longrightarrow>
      (run lines parsed = Inl e \<longleftrightarrow> run lines' parsed = Inl e)) \<and>
   (title (read_metadata lines) = Some t \<and> run lines parsed = Inr slides \<longrightarrow>
      hd slides = [TextBox t,
                   TextBox (''Analysis Date: '' @
                     (case date (read_metadata lines) of None \<Rightarrow> ''None'' | Some d \<Rightarrow> d))])"
proof -
  have 1: "title (read_metadata lines) = Some t \<and> date (read_metadata lines) = None \<longrightarrow>
      title_slide (read_metadata lines) = Inr [TextBox t, TextBox ''Analysis Date: None'']"
    by (simp add: title_slide_def str_opt_def)
  have 2: "title (read_metadata lines') = title (read_metadata lines) \<and>
    date (read_metadata lines') = date (read_metadata lines) \<longrightarrow>
      run lines' parsed = run lines parsed"
  proof
    assume "title (read_metadata lines') = title (read_metadata lines) \<and>
      date (read_metadata lines') = date (read_metadata lines)"
    then have a: "title (read_metadata lines') = title (read_metadata lines)"
      and b: "date (read_metadata lines') = date (read_metadata lines)" by blast+
    have "title_slide (read_metadata lines') = title_slide (read_metadata lines)"
      by (simp only: title_slide_def a b)
    then show "run lines' parsed = run lines parsed"
      by (cases "load parsed") (simp_all add: run_def)
  qed
  have 3: "title (read_metadata lines) \<noteq> None \<and> title (read_metadata lines') \<noteq> None \<longrightarrow>
      (run lines parsed = Inl e \<longleftrightarrow> run lines' parsed = Inl e)"
  proof
    assume "title (read_metadata lines) \<noteq> None \<and> title (read_metadata lines') \<noteq> None"
    then obtain a b where a: "title (read_metadata lines) = Some a"
      and b: "title (read_metadata lines') = Some b" by auto
    show "run lines parsed = Inl e \<longleftrightarrow> run lines' parsed = Inl e"
      unfolding run_title_Some [OF a] run_title_Some [OF b]
      by (simp split: sum.splits)
  qed
  have 4: "title (read_metadata lines) = Some t \<and> run lines parsed = Inr slides \<longrightarrow>
      hd slides = [TextBox t,
                   TextBox (''Analysis Date: '' @
                     (case date (read_metadata lines) of None \<Rightarrow> ''None'' | Some d \<Rightarrow> d))]"
  proof
    assume a: "title (read_metadata lines) = Some t \<and> run lines parsed = Inr slides"
    then have t: "title (read_metadata lines) = Some t" and r: "run lines parsed = Inr slides"
      by blast+
    from r show "hd slides = [TextBox t,
                   TextBox (''Analysis Date: '' @
                     (case date (read_metadata lines) of None \<Rightarrow> ''None'' | Some d \<Rightarrow> d))]"
      unfolding run_title_Some [OF t]
      by (auto simp: str_opt_def split: sum.splits)
  qed
  from 1 2 3 4 show ?thesis by blast
qed

theorem absent_date_and_notes_tolerated_witness:
  "title_slide (read_metadata [''Universe'', '' , '']) =
     Inr [TextBox ''Universe'', TextBox ''Analysis Date: None''] \<and>
   run [''Universe'', '' , ''] (Inl ReadError) = run [''Universe'', [], ''a note''] (Inl ReadError)"
proof -
  let ?l = "[''Universe'', '' , '']"
  let ?l' = "[''Universe'', [], ''a note'']"
  have t: "title (read_metadata ?l) = Some ''Universe''"
    by (simp add: read_metadata_def clean_metadata_line_def strip_eval)
  have d: "date (read_metadata ?l) = None"
    by (simp add: read_metadata_def clean_metadata_line_def strip_eval)
  have t': "title (read_metadata ?l') = Some ''Universe''"
    by (simp add: read_metadata_def clean_metadata_line_def strip_eval)
  have d': "date (read_metadata ?l') = None"
    by (simp add: read_metadata_def clean_metadata_line_def strip_eval)
  from absent_date_and_notes_tolerated [of ?l "''Universe''" ?l "Inl ReadError"] t d
  have a: "title_slide (read_metadata ?l) =
     Inr [TextBox ''Universe'', TextBox ''Analysis Date: None'']" by blast
  from absent_date_and_notes_tolerated [of ?l' "''Universe''" ?l "Inl ReadError"] t d t' d'
  have "run ?l (Inl ReadError) = run ?l' (Inl ReadError)" by simp
  with a show ?thesis by simp
qed

text \<open>
  Claim C3 as stated fails: with a title line that has no non-empty part the run ends with
  the TypeError of line 53, and a null date is shown as \<open>None\<close>, not as a placeholder
  for an unknown value.
\<close>

theorem absent_metadata_counterexample:
  "run ['' , , '', ''2024-01-31'', ''notes'']
    (Inr \<lparr>nrows = 1, columns = [(''Ticker'', [Some ''AAA'']), (''Name'', [Some ''Alpha'']),
                                (''MktCap'', [Some ''1,000.5'']), (''SectorCode'', [Some ''TECH''])]\<rparr>)
     = Inl TypeError \<and>
   title_slide (read_metadata [''Universe'', '' , '', ''notes'']) =
     Inr [TextBox ''Universe'', TextBox ''Analysis Date: None'']"
  by (simp add: run_def read_metadata_def clean_metadata_line_def strip_eval load_def
      drop_unnamed_def startswith_def coerce_mktcap_def getitem_def title_slide_def str_opt_def)

section \<open>Stable sorting\<close>




section \<open>The table of sector counts\<close>













section \<open>The ranking by MktCap\<close>










end
